theory Spec2Isabelle
  imports Main "HOL-Library.Word" "HOL-Library.Sublist"
begin

section \<open>The RTSP producer of go2rtc: track negotiation, start, stop, reconnect\<close>

text \<open>
  The development embeds \<^verbatim>\<open>pkg/rtsp/producer.go\<close> (the methods \<^verbatim>\<open>GetTrack\<close>,
  \<^verbatim>\<open>Start\<close>, \<^verbatim>\<open>Stop\<close> and \<^verbatim>\<open>Reconnect\<close> of \<^verbatim>\<open>*rtsp.Conn\<close>) and
  \<^verbatim>\<open>internal/streams/config.go\<close> (\<^verbatim>\<open>GetBackchannelInactivityTimeout\<close>).
  Every method is a function from the connection before the call to the returned value and
  the connection after it. The mutex \<^verbatim>\<open>stateMu\<close> is not modelled: each function describes
  one call that runs without interference.
\<close>

subsection \<open>Configuration (internal/streams/config.go)\<close>

text \<open>
  \<^verbatim>\<open>time.Duration\<close> is a signed 64-bit count of nanoseconds. The package-level variable
  \<^verbatim>\<open>CFG\<close> is passed as an argument.
\<close>

type_synonym duration = "64 word"

record config =
  Backchannel_InactivityTimeout :: duration

definition second :: duration where
  "second = 1000000000"

definition DefaultBackchannelInactivityTimeout :: duration where
  "DefaultBackchannelInactivityTimeout = 0 * second"

text \<open>Both \<^verbatim>\<open>return\<close> statements of the source return the configured value.\<close>

definition GetBackchannelInactivityTimeout :: "config \<Rightarrow> duration" where
  "GetBackchannelInactivityTimeout CFG =
     (if 0 <s Backchannel_InactivityTimeout CFG
      then Backchannel_InactivityTimeout CFG
      else Backchannel_InactivityTimeout CFG)"

subsection \<open>Data of a connection (pkg/rtsp/producer.go and its collaborators)\<close>

text \<open>
  Modelled from the spec: the declarations of \<^verbatim>\<open>core.Mode\<close>, of the connection state
  and of the media direction are not among the sources. Section 3 of the specification lists
  the three roles, the four states and the three directions; the constructors carry the
  names the source uses for them.
\<close>

datatype mode = ModeActiveProducer | ModePassiveConsumer | ModePassiveProducer

datatype state = StateNone | StateConn | StateSetup | StatePlay

datatype direction = DirectionRecvonly | DirectionSendonly | DirectionSendRecv

text \<open>
  A \<^verbatim>\<open>*core.Media\<close> is a pointer, and the source compares two of them by identity
  (\<^verbatim>\<open>track.Media == media\<close>). The model of such a pointer is the address together with
  the one field of the object the source reads, so that two media with equal contents
  at different addresses stay different.
\<close>

record media =
  media_addr :: nat
  Direction :: direction

type_synonym byte = "8 word"

text \<open>
  A track is a \<^verbatim>\<open>*core.Receiver\<close> or a \<^verbatim>\<open>*core.Sender\<close>; the source reads and writes
  the fields \<^verbatim>\<open>Media\<close>, \<^verbatim>\<open>Codec\<close> and \<^verbatim>\<open>ID\<close> only. The codec type \<open>'c\<close> is left
  open.
\<close>

record 'c track =
  Media :: media
  Codec :: 'c
  ID :: byte

text \<open>
  Errors are values. The first four are the errors the source builds with
  \<^verbatim>\<open>errors.New\<close>, with the data their message is built from; \<open>AssertFailed\<close> is the
  panic of \<^verbatim>\<open>core.Assert\<close>; \<open>External\<close> is any error that a collaborator returns.
\<close>

datatype error =
    WrongModeForGetTrack mode
  | GetTrackInternalLogicError mode direction
  | StartFromConnState
  | StartFromWrongMode mode
  | AssertFailed
  | External string

text \<open>
  The calls to collaborators are recorded, each with what it returned, in the order in
  which they are made. The record is not a field of the Go structure: it is kept so that
  theorems can say which collaborator ran, when, and with which result.
\<close>

datatype 'c call =
    CallFire string
  | CallClose
  | CallDial
  | CallDescribe
  | CallSetupMedia media
  | CallPlay
  | CallHandle
  | CallReceiverClose "'c track"
  | CallSenderClose "'c track"

datatype outcome = Done | Assigned byte | Failed error

type_synonym 'c event = "'c call \<times> outcome"

text \<open>
  The connection: the fields the source names, the rest of the Go structure (socket,
  session, sequence numbers, the described medias) as one opaque component \<open>session\<close>,
  and the record of calls.
\<close>

record ('c, 't) conn =
  mode :: mode
  state :: state
  Receivers :: "'c track list"
  Senders :: "'c track list"
  session :: 't
  calls :: "'c event list"

text \<open>
  Modelled from the spec: the collaborators \<^verbatim>\<open>Codec.Match\<close>, \<^verbatim>\<open>Fire\<close>, \<^verbatim>\<open>Close\<close>,
  \<^verbatim>\<open>Dial\<close>, \<^verbatim>\<open>Describe\<close>, \<^verbatim>\<open>SetupMedia\<close>, \<^verbatim>\<open>Play\<close>, \<^verbatim>\<open>Handle\<close> and the
  \<^verbatim>\<open>Close\<close> of a receiver or sender are not among the sources. Section 6 of the
  specification gives them as opaque operations that return an error (\<^verbatim>\<open>SetupMedia\<close>: a
  channel or an error), so they are parameters. The operations of the transport are methods
  of \<^verbatim>\<open>*Conn\<close>: each is handed the connection and leaves a connection, in which it may
  have written any field (the state, the registries, the opaque component). The
  \<^verbatim>\<open>Close\<close> of a track is a method of the track, not of the connection: it may read the
  connection and leaves the opaque component. \<^verbatim>\<open>Match\<close> compares two codecs.
\<close>

record ('c, 't) externals =
  Match :: "'c \<Rightarrow> 'c \<Rightarrow> bool"
  Fire :: "string \<Rightarrow> ('c, 't) conn \<Rightarrow> ('c, 't) conn"
  Close :: "('c, 't) conn \<Rightarrow> error option \<times> ('c, 't) conn"
  Dial :: "('c, 't) conn \<Rightarrow> error option \<times> ('c, 't) conn"
  Describe :: "('c, 't) conn \<Rightarrow> error option \<times> ('c, 't) conn"
  SetupMedia :: "media \<Rightarrow> ('c, 't) conn \<Rightarrow> (error + byte) \<times> ('c, 't) conn"
  Play :: "('c, 't) conn \<Rightarrow> error option \<times> ('c, 't) conn"
  Handle :: "('c, 't) conn \<Rightarrow> error option \<times> ('c, 't) conn"
  ReceiverClose :: "'c track \<Rightarrow> ('c, 't) conn \<Rightarrow> error option \<times> 't"
  SenderClose :: "'c track \<Rightarrow> ('c, 't) conn \<Rightarrow> error option \<times> 't"

subsection \<open>Calling a collaborator\<close>

text \<open>
  A call hands the connection to the collaborator and takes what the collaborator leaves.
  The record of calls is not the collaborator's to write: after the call it is the record
  before the call with the call and its outcome added.
\<close>

fun reported :: "error option \<Rightarrow> outcome" where
  "reported None = Done"
| "reported (Some err) = Failed err"

fun negotiated :: "error + byte \<Rightarrow> outcome" where
  "negotiated (Inl err) = Failed err"
| "negotiated (Inr channel) = Assigned channel"

definition invoke ::
  "'c call \<Rightarrow> error option \<times> ('c, 't) conn \<Rightarrow> ('c, 't) conn \<Rightarrow> error option \<times> ('c, 't) conn" where
  "invoke call r c = (fst r, (snd r)\<lparr>calls := calls c @ [(call, reported (fst r))]\<rparr>)"

definition invoke_track ::
  "'c call \<Rightarrow> error option \<times> 't \<Rightarrow> ('c, 't) conn \<Rightarrow> error option \<times> ('c, 't) conn" where
  "invoke_track call r c =
     (fst r, c\<lparr>session := snd r, calls := calls c @ [(call, reported (fst r))]\<rparr>)"

definition do_Fire :: "('c, 't) externals \<Rightarrow> string \<Rightarrow> ('c, 't) conn \<Rightarrow> ('c, 't) conn" where
  "do_Fire T msg c = (Fire T msg c)\<lparr>calls := calls c @ [(CallFire msg, Done)]\<rparr>"

definition do_Close :: "('c, 't) externals \<Rightarrow> ('c, 't) conn \<Rightarrow> error option \<times> ('c, 't) conn" where
  "do_Close T c = invoke CallClose (Close T c) c"

definition do_Dial :: "('c, 't) externals \<Rightarrow> ('c, 't) conn \<Rightarrow> error option \<times> ('c, 't) conn" where
  "do_Dial T c = invoke CallDial (Dial T c) c"

definition do_Describe :: "('c, 't) externals \<Rightarrow> ('c, 't) conn \<Rightarrow> error option \<times> ('c, 't) conn" where
  "do_Describe T c = invoke CallDescribe (Describe T c) c"

definition do_Play :: "('c, 't) externals \<Rightarrow> ('c, 't) conn \<Rightarrow> error option \<times> ('c, 't) conn" where
  "do_Play T c = invoke CallPlay (Play T c) c"

definition do_Handle :: "('c, 't) externals \<Rightarrow> ('c, 't) conn \<Rightarrow> error option \<times> ('c, 't) conn" where
  "do_Handle T c = invoke CallHandle (Handle T c) c"

definition do_ReceiverClose ::
  "('c, 't) externals \<Rightarrow> 'c track \<Rightarrow> ('c, 't) conn \<Rightarrow> error option \<times> ('c, 't) conn" where
  "do_ReceiverClose T receiver c =
     invoke_track (CallReceiverClose receiver) (ReceiverClose T receiver c) c"

definition do_SenderClose ::
  "('c, 't) externals \<Rightarrow> 'c track \<Rightarrow> ('c, 't) conn \<Rightarrow> error option \<times> ('c, 't) conn" where
  "do_SenderClose T sender c =
     invoke_track (CallSenderClose sender) (SenderClose T sender c) c"

definition do_SetupMedia ::
  "('c, 't) externals \<Rightarrow> media \<Rightarrow> ('c, 't) conn \<Rightarrow> (error + byte) \<times> ('c, 't) conn" where
  "do_SetupMedia T m c =
     (let r = SetupMedia T m c
      in (fst r, (snd r)\<lparr>calls := calls c @ [(CallSetupMedia m, negotiated (fst r))]\<rparr>))"

subsection \<open>Reconnect\<close>

text \<open>
  The two loops \<^verbatim>\<open>for _, receiver := range c.Receivers\<close> and
  \<^verbatim>\<open>for _, sender := range c.Senders\<close>: one \<^verbatim>\<open>SetupMedia\<close> for the media of each
  track, the channel dropped, the first error returned at once.
\<close>

fun restore_medias ::
  "('c, 't) externals \<Rightarrow> 'c track list \<Rightarrow> ('c, 't) conn \<Rightarrow> error option \<times> ('c, 't) conn" where
  "restore_medias T [] c = (None, c)"
| "restore_medias T (t # ts) c =
     (case do_SetupMedia T (Media t) c of
        (Inl err, c') \<Rightarrow> (Some err, c')
      | (Inr _, c') \<Rightarrow> restore_medias T ts c')"

definition Reconnect :: "('c, 't) externals \<Rightarrow> ('c, 't) conn \<Rightarrow> error option \<times> ('c, 't) conn" where
  "Reconnect T c =
     (let c1 = do_Fire T ''RTSP reconnect'' c;
          c2 = snd (do_Close T c1)
      in case do_Dial T c2 of
           (Some err, c3) \<Rightarrow> (Some err, c3)
         | (None, c3) \<Rightarrow>
      (case do_Describe T c3 of
           (Some err, c4) \<Rightarrow> (Some err, c4)
         | (None, c4) \<Rightarrow>
      (case restore_medias T (Receivers c4) c4 of
           (Some err, c5) \<Rightarrow> (Some err, c5)
         | (None, c5) \<Rightarrow> restore_medias T (Senders c5) c5)))"

subsection \<open>GetTrack\<close>

text \<open>
  Modelled from the spec: \<^verbatim>\<open>core.NewReceiver\<close> is not among the sources; it builds the
  track for a media and a codec (section 3), and the source sets the channel afterwards.
\<close>

definition NewReceiver :: "media \<Rightarrow> 'c \<Rightarrow> 'c track" where
  "NewReceiver m codec = \<lparr>Media = m, Codec = codec, ID = 0\<rparr>"

text \<open>The scan of \<^verbatim>\<open>c.Receivers\<close> that opens \<^verbatim>\<open>GetTrack\<close> (lines 16 to 22).\<close>

definition cached_track :: "('c, 't) externals \<Rightarrow> ('c, 't) conn \<Rightarrow> media \<Rightarrow> 'c \<Rightarrow> 'c track option" where
  "cached_track T c m codec =
     (if Direction m = DirectionRecvonly
      then find (\<lambda>track. Media track = m \<and> Match T (Codec track) codec) (Receivers c)
      else None)"

text \<open>The statements after the \<^verbatim>\<open>switch\<close> (lines 77 to 86).\<close>

definition add_receiver ::
  "('c, 't) conn \<Rightarrow> media \<Rightarrow> 'c \<Rightarrow> byte \<Rightarrow> (error + 'c track) \<times> ('c, 't) conn" where
  "add_receiver c m codec channel =
     (if Direction m \<noteq> DirectionRecvonly
      then (Inl (GetTrackInternalLogicError (mode c) (Direction m)), c)
      else (let track = (NewReceiver m codec)\<lparr>ID := channel\<rparr>
            in (Inr track, c\<lparr>Receivers := Receivers c @ [track]\<rparr>)))"

text \<open>The part of \<^verbatim>\<open>GetTrack\<close> that runs under the lock (lines 24 to 86).\<close>

definition GetTrack_locked ::
  "('c, 't) externals \<Rightarrow> ('c, 't) conn \<Rightarrow> media \<Rightarrow> 'c \<Rightarrow> (error + 'c track) \<times> ('c, 't) conn" where
  "GetTrack_locked T c m codec =
     (case mode c of
        ModeActiveProducer \<Rightarrow>
          (case (if state c = StatePlay then Reconnect T c else (None, c)) of
             (Some err, c1) \<Rightarrow> (Inl err, c1)
           | (None, c1) \<Rightarrow>
               (case do_SetupMedia T m c1 of
                  (Inl err, c2) \<Rightarrow> (Inl err, c2)
                | (Inr channel, c2) \<Rightarrow>
                    (let c3 = c2\<lparr>state := StateSetup\<rparr>
                     in if Direction m = DirectionSendonly
                        then (Inr ((NewReceiver m codec)\<lparr>ID := channel\<rparr>), c3)
                        else add_receiver c3 m codec channel)))
      | ModePassiveConsumer \<Rightarrow>
          (let channel = (if Direction m = DirectionRecvonly
                          then (word_of_nat (length (Receivers c) * 2) :: byte)
                          else (word_of_nat (length (Senders c)) :: byte) * 2)
           in add_receiver c m codec channel)
      | ModePassiveProducer \<Rightarrow> (Inl (WrongModeForGetTrack (mode c)), c))"

definition GetTrack ::
  "('c, 't) externals \<Rightarrow> ('c, 't) conn \<Rightarrow> media \<Rightarrow> 'c \<Rightarrow> (error + 'c track) \<times> ('c, 't) conn" where
  "GetTrack T c m codec =
     (case cached_track T c m codec of
        Some track \<Rightarrow> (Inr track, c)
      | None \<Rightarrow> GetTrack_locked T c m codec)"

subsection \<open>Start\<close>

text \<open>
  One pass through the locked \<^verbatim>\<open>switch\<close> of the loop (lines 93 to 116). \<open>err\<close> is the
  named result of \<^verbatim>\<open>Start\<close>: nil when the loop is entered, afterwards what \<^verbatim>\<open>Handle\<close>
  returned. The pass gives \<open>ok\<close>, the new \<open>err\<close> and the connection. The \<^verbatim>\<open>switch\<close>
  has no case for \<^verbatim>\<open>StatePlay\<close> and no default, so that state leaves \<open>err\<close> as it is.
\<close>

definition Start_switch ::
  "('c, 't) externals \<Rightarrow> error option \<Rightarrow> ('c, 't) conn \<Rightarrow> bool \<times> error option \<times> ('c, 't) conn" where
  "Start_switch T err c =
     (case state c of
        StateNone \<Rightarrow> (False, None, c)
      | StateConn \<Rightarrow> (False, Some StartFromConnState, c)
      | StateSetup \<Rightarrow>
          (let r = (case mode c of
                      ModeActiveProducer \<Rightarrow> do_Play T c
                    | ModePassiveProducer \<Rightarrow> (None, c)
                    | ModePassiveConsumer \<Rightarrow> (Some (StartFromWrongMode (mode c)), c))
           in if fst r = None then (True, fst r, (snd r)\<lparr>state := StatePlay\<rparr>)
              else (False, fst r, snd r))
      | StatePlay \<Rightarrow> (False, err, c))"

text \<open>
  The \<^verbatim>\<open>for\<close> loop has no bound: \<^verbatim>\<open>Handle\<close> may put the state back to
  \<^verbatim>\<open>StateSetup\<close> every time. \<open>None\<close> is a loop that never returns.
\<close>

partial_function (option) Start_loop ::
  "('c, 't) externals \<Rightarrow> error option \<Rightarrow> ('c, 't) conn \<Rightarrow> (error option \<times> ('c, 't) conn) option" where
  "Start_loop T err c =
     (let s = Start_switch T err c
      in if \<not> fst s then Some (snd s)
         else (let h = do_Handle T (snd (snd s)) in Start_loop T (fst h) (snd h)))"

text \<open>The panic of \<^verbatim>\<open>core.Assert\<close> is the error \<open>AssertFailed\<close>.\<close>

definition Start :: "('c, 't) externals \<Rightarrow> ('c, 't) conn \<Rightarrow> (error option \<times> ('c, 't) conn) option" where
  "Start T c =
     (if mode c = ModeActiveProducer \<or> mode c = ModePassiveProducer
      then Start_loop T None c
      else Some (Some AssertFailed, c))"

subsection \<open>Stop\<close>




section \<open>Notions the claims use\<close>

subsection \<open>Performing calls one after the other\<close>

text \<open>
  \<open>perform T call c\<close> is the connection after the one call \<open>call\<close> to the collaborators
  \<open>T\<close>, whatever the call reports; \<open>run T plan c\<close> performs every call of the list
  \<open>plan\<close>, in the order of the list, and never stops early.
\<close>

fun perform :: "('c, 't) externals \<Rightarrow> 'c call \<Rightarrow> ('c, 't) conn \<Rightarrow> ('c, 't) conn" where
  "perform T (CallFire msg) c = do_Fire T msg c"
| "perform T CallClose c = snd (do_Close T c)"
| "perform T CallDial c = snd (do_Dial T c)"
| "perform T CallDescribe c = snd (do_Describe T c)"
| "perform T (CallSetupMedia m) c = snd (do_SetupMedia T m c)"
| "perform T CallPlay c = snd (do_Play T c)"
| "perform T CallHandle c = snd (do_Handle T c)"
| "perform T (CallReceiverClose receiver) c = snd (do_ReceiverClose T receiver c)"
| "perform T (CallSenderClose sender) c = snd (do_SenderClose T sender c)"

fun run :: "('c, 't) externals \<Rightarrow> 'c call list \<Rightarrow> ('c, 't) conn \<Rightarrow> ('c, 't) conn" where
  "run T [] c = c"
| "run T (call # plan) c = run T plan (perform T call c)"

subsection \<open>The steps of a reconnect\<close>

text \<open>
  The calls the claims expect of \<^verbatim>\<open>Reconnect\<close>, in their order: the event, the close of
  the old session, the dial, the describe, then one setup for the media of every receiver
  and one for the media of every sender, each in the order of the registry.
\<close>

definition Reconnect_plan :: "('c, 't) conn \<Rightarrow> 'c call list" where
  "Reconnect_plan c =
     [CallFire ''RTSP reconnect'', CallClose, CallDial, CallDescribe]
     @ map (\<lambda>receiver. CallSetupMedia (Media receiver)) (Receivers c)
     @ map (\<lambda>sender. CallSetupMedia (Media sender)) (Senders c)"

text \<open>The one call whose error \<^verbatim>\<open>Reconnect\<close> drops.\<close>

fun ignored :: "'c call \<Rightarrow> bool" where
  "ignored CallClose = True"
| "ignored _ = False"

text \<open>
  \<open>stops_at_error evs res\<close>: in the run \<open>evs\<close> a call that failed, and whose error is not
  dropped, is the last call of the run and its error is the result \<open>res\<close>; a run without
  such a call has the result nil.
\<close>

fun stops_at_error :: "'c event list \<Rightarrow> error option \<Rightarrow> bool" where
  "stops_at_error [] res = (res = None)"
| "stops_at_error ((call, out) # evs) res =
     (if ignored call then stops_at_error evs res
      else (case out of
              Failed err \<Rightarrow> evs = [] \<and> res = Some err
            | _ \<Rightarrow> stops_at_error evs res))"

text \<open>
  \<^verbatim>\<open>Reconnect\<close> makes no assignment to the state or to a registry; what its
  collaborators do there is theirs. \<open>transport_leaves T f\<close>: each of the five collaborators
  that \<^verbatim>\<open>Reconnect\<close> calls leaves the field \<open>f\<close> of the connection as it finds it.
\<close>

definition transport_leaves :: "('c, 't) externals \<Rightarrow> (('c, 't) conn \<Rightarrow> 'a) \<Rightarrow> bool" where
  "transport_leaves T f =
     ((\<forall>msg c. f (Fire T msg c) = f c) \<and>
      (\<forall>c. f (snd (Close T c)) = f c) \<and>
      (\<forall>c. f (snd (Dial T c)) = f c) \<and>
      (\<forall>c. f (snd (Describe T c)) = f c) \<and>
      (\<forall>m c. f (snd (SetupMedia T m c)) = f c))"

subsection \<open>The closes of a stop\<close>


subsection \<open>A sequence of calls of GetTrack\<close>

text \<open>
  \<^verbatim>\<open>GetTrack\<close> called once for each codec of a list, always with the same media, each call
  on the connection the call before it left.
\<close>

fun GetTrack_calls ::
  "('c, 't) externals \<Rightarrow> ('c, 't) conn \<Rightarrow> media \<Rightarrow> 'c list
     \<Rightarrow> (error + 'c track) list \<times> ('c, 't) conn" where
  "GetTrack_calls T c m [] = ([], c)"
| "GetTrack_calls T c m (codec # codecs) =
     (let r = GetTrack T c m codec;
          rs = GetTrack_calls T (snd r) m codecs
      in (fst r # fst rs, snd rs))"

subsection \<open>Example collaborators and connections\<close>

text \<open>
  Collaborators for the concrete runs below. Codecs are names; a codec matches its own name
  and the name \<open>ANY\<close>. The opaque component counts the setups of the session: a dial
  puts it back to zero, a setup assigns twice the count as channel. Closing a receiver
  reports a failure. \<^verbatim>\<open>Handle\<close> ends the session without error.
\<close>

definition example_externals :: "(string, nat) externals" where
  "example_externals =
     \<lparr>Match = (\<lambda>a b. b = ''ANY'' \<or> a = b),
      Fire = (\<lambda>msg c. c),
      Close = (\<lambda>c. (None, c)),
      Dial = (\<lambda>c. (None, c\<lparr>session := 0\<rparr>)),
      Describe = (\<lambda>c. (None, c)),
      SetupMedia = (\<lambda>m c. (Inr (word_of_nat (2 * session c)), c\<lparr>session := Suc (session c)\<rparr>)),
      Play = (\<lambda>c. (None, c)),
      Handle = (\<lambda>c. (None, c\<lparr>state := StateNone\<rparr>)),
      ReceiverClose = (\<lambda>receiver c. (Some (External ''receiver close''), session c)),
      SenderClose = (\<lambda>sender c. (None, session c))\<rparr>"




text \<open>A transport whose \<^verbatim>\<open>Handle\<close> returns an error and leaves the state as it is.\<close>

definition failing_handle :: "(string, nat) externals" where
  "failing_handle = example_externals\<lparr>Handle := (\<lambda>c. (Some (External ''EOF''), c))\<rparr>"

definition video :: media where
  "video = \<lparr>media_addr = 1, Direction = DirectionRecvonly\<rparr>"

definition audio :: media where
  "audio = \<lparr>media_addr = 2, Direction = DirectionRecvonly\<rparr>"

definition backchannel :: media where
  "backchannel = \<lparr>media_addr = 3, Direction = DirectionSendonly\<rparr>"

definition video_track :: "string track" where
  "video_track = \<lparr>Media = video, Codec = ''H264'', ID = 0\<rparr>"

definition backchannel_track :: "string track" where
  "backchannel_track = \<lparr>Media = backchannel, Codec = ''PCMA'', ID = 2\<rparr>"

text \<open>A connection of the given role and state with one receiver and one sender.\<close>

definition example_conn :: "mode \<Rightarrow> state \<Rightarrow> (string, nat) conn" where
  "example_conn md st =
     \<lparr>mode = md, state = st, Receivers = [video_track], Senders = [backchannel_track],
      session = 2, calls = []\<rparr>"

text \<open>
  The server-side connection that pushes, playing, after a \<^verbatim>\<open>Handle\<close> that returned
  EOF.
\<close>

definition after_eof :: "(string, nat) conn" where
  "after_eof = (example_conn ModePassiveProducer StatePlay)
     \<lparr>calls := [(CallHandle, Failed (External ''EOF''))]\<rparr>"

text \<open>
  The track that a client whose session has had two setups gets for the audio media, and the
  connection of that client, set up, after \<^verbatim>\<open>GetTrack\<close> has registered the track.
\<close>

definition audio_track :: "string track" where
  "audio_track = \<lparr>Media = audio, Codec = ''PCMA'', ID = 4\<rparr>"

definition after_audio :: "(string, nat) conn" where
  "after_audio = (example_conn ModeActiveProducer StateSetup)
     \<lparr>Receivers := [video_track, audio_track], session := 3,
      calls := [(CallSetupMedia audio, Assigned 4)]\<rparr>"

text \<open>A server-side connection that already holds 128 receivers for the video media.\<close>

definition crowded_conn :: "(string, nat) conn" where
  "crowded_conn =
     \<lparr>mode = ModePassiveConsumer, state = StateNone, Receivers = replicate 128 video_track,
      Senders = [], session = 0, calls = []\<rparr>"

section \<open>The configured timeout\<close>

text \<open>
  Claim C4. \<^verbatim>\<open>GetBackchannelInactivityTimeout\<close> is claimed to return the configured
  timeout when it is positive and zero in every other case. At a configured timeout of
  minus one second the test \<^verbatim>\<open>> 0\<close> fails and the function returns the configured
  value, minus one second, which is not zero.
\<close>

theorem GetBackchannelInactivityTimeout_negative:
  "\<not> 0 <s - second \<and>
   sint (GetBackchannelInactivityTimeout \<lparr>Backchannel_InactivityTimeout = - second\<rparr>) = - 1000000000"
  by (simp add: GetBackchannelInactivityTimeout_def second_def word_sless_alt)

section \<open>Start\<close>

text \<open>A pass through the switch that does not set \<open>ok\<close> ends the loop: \<^verbatim>\<open>Handle\<close> is not called.\<close>

lemma Start_loop_stops:
  "\<not> fst (Start_switch T err c) \<Longrightarrow> Start_loop T err c = Some (snd (Start_switch T err c))"
  by (subst Start_loop.simps) (simp add: Let_def)

text \<open>
  A pass that sets \<open>ok\<close> is followed by one \<^verbatim>\<open>Handle\<close>, and the loop goes on with the
  error and the connection that \<^verbatim>\<open>Handle\<close> left.
\<close>

lemma Start_loop_continues:
  "fst (Start_switch T err c) \<Longrightarrow>
   Start_loop T err c =
     Start_loop T (fst (do_Handle T (snd (snd (Start_switch T err c)))))
                  (snd (do_Handle T (snd (snd (Start_switch T err c)))))"
  by (subst Start_loop.simps) (simp add: Let_def)

text \<open>
  Claim C7. When the pass through the switch finds the state \<^verbatim>\<open>StateConn\<close>, whatever
  \<open>err\<close> the loop carries, \<^verbatim>\<open>Start\<close> returns the error "start from CONN state" and the
  connection is the one the pass found: the state is unchanged and the record of calls has no
  new entry, so \<^verbatim>\<open>Handle\<close> was not called. In particular a \<^verbatim>\<open>Start\<close> that passes its
  assertion on such a connection returns that error.
\<close>

theorem Start_from_Conn:
  assumes "state c = StateConn"
  shows "Start_loop T err c = Some (Some StartFromConnState, c) \<and>
         (mode c = ModeActiveProducer \<or> mode c = ModePassiveProducer \<longrightarrow>
            Start T c = Some (Some StartFromConnState, c))"
proof -
  have s: "Start_switch T e c = (False, Some StartFromConnState, c)" for e
    using assms by (simp add: Start_switch_def)
  have "Start_loop T e c = Some (Some StartFromConnState, c)" for e
    using Start_loop_stops [of T e c] s [of e] by simp
  then show ?thesis by (simp add: Start_def)
qed

theorem Start_from_Conn_witness:
  "state (example_conn ModeActiveProducer StateConn) = StateConn \<and>
   Start example_externals (example_conn ModeActiveProducer StateConn)
     = Some (Some StartFromConnState, example_conn ModeActiveProducer StateConn)"
proof -
  have h: "state (example_conn ModeActiveProducer StateConn) = StateConn"
    by (simp add: example_conn_def)
  have m: "mode (example_conn ModeActiveProducer StateConn) = ModeActiveProducer"
    by (simp add: example_conn_def)
  from Start_from_Conn [OF h, of example_externals None] h m show ?thesis by simp
qed

text \<open>
  Claim C2, as stated, fails: the switch has no case for \<^verbatim>\<open>StatePlay\<close> and no default, so
  a \<^verbatim>\<open>Start\<close> that finds the connection playing returns nil.
\<close>

theorem Start_from_Play_returns_nil:
  "state (example_conn ModeActiveProducer StatePlay) = StatePlay \<and>
   Start example_externals (example_conn ModeActiveProducer StatePlay)
     = Some (None, example_conn ModeActiveProducer StatePlay)"
proof -
  have "Start_switch example_externals None (example_conn ModeActiveProducer StatePlay)
          = (False, None, example_conn ModeActiveProducer StatePlay)"
    by (simp add: Start_switch_def example_conn_def)
  then have "Start_loop example_externals None (example_conn ModeActiveProducer StatePlay)
          = Some (None, example_conn ModeActiveProducer StatePlay)"
    using Start_loop_stops [of example_externals None "example_conn ModeActiveProducer StatePlay"]
    by simp
  then show ?thesis by (simp add: Start_def example_conn_def)
qed

text \<open>
  Claim C2, amended. When the pass through the switch finds a state other than
  \<^verbatim>\<open>StateNone\<close>, \<^verbatim>\<open>StateConn\<close> and \<^verbatim>\<open>StateSetup\<close>, that is \<^verbatim>\<open>StatePlay\<close>,
  \<^verbatim>\<open>Start\<close> returns without calling \<^verbatim>\<open>Handle\<close> and leaves the connection \<open>c\<close> as it
  is, and no error is made up. What it returns is the error it carries. When the pass is the
  first one, that is nil. When the pass comes after a pass on a connection \<open>b\<close> that set
  \<open>ok\<close> and after the \<^verbatim>\<open>Handle\<close> that followed it, and that \<^verbatim>\<open>Handle\<close> returned
  \<open>err\<close> and left \<open>c\<close>, then the loop that began at \<open>b\<close>, and so a \<^verbatim>\<open>Start\<close> called on
  \<open>b\<close>, returns \<open>err\<close>, the error of that \<^verbatim>\<open>Handle\<close>, and \<open>c\<close>.
\<close>

theorem Start_from_Play:
  assumes "state c = StatePlay"
  shows "Start_loop T err c = Some (err, c) \<and>
         (mode c = ModeActiveProducer \<or> mode c = ModePassiveProducer \<longrightarrow>
            Start T c = Some (None, c)) \<and>
         (\<forall>e b. fst (Start_switch T e b) \<and> do_Handle T (snd (snd (Start_switch T e b))) = (err, c) \<longrightarrow>
            Start_loop T e b = Some (err, c)) \<and>
         (\<forall>b. (mode b = ModeActiveProducer \<or> mode b = ModePassiveProducer) \<and>
              fst (Start_switch T None b) \<and>
              do_Handle T (snd (snd (Start_switch T None b))) = (err, c) \<longrightarrow>
            Start T b = Some (err, c))"
proof -
  have s: "Start_switch T e c = (False, e, c)" for e
    using assms by (simp add: Start_switch_def)
  have stop: "Start_loop T e c = Some (e, c)" for e
    using Start_loop_stops [of T e c] s [of e] by simp
  have after: "Start_loop T e b = Some (err, c)"
    if "fst (Start_switch T e b)" "do_Handle T (snd (snd (Start_switch T e b))) = (err, c)" for e b
    using Start_loop_continues [OF that(1)] that(2) stop [of err] by simp
  have first: "Start T c = Some (None, c)"
    if "mode c = ModeActiveProducer \<or> mode c = ModePassiveProducer"
    using that stop [of None] by (simp add: Start_def)
  have later: "Start T b = Some (err, c)"
    if "mode b = ModeActiveProducer \<or> mode b = ModePassiveProducer"
       "fst (Start_switch T None b)" "do_Handle T (snd (snd (Start_switch T None b))) = (err, c)" for b
    using that(1) after [OF that(2,3)] by (simp add: Start_def)
  show ?thesis
    using stop [of err] first after later by blast
qed

text \<open>
  A server that pushes, set up, whose \<^verbatim>\<open>Handle\<close> returns the error EOF and leaves the
  connection playing: \<^verbatim>\<open>Start\<close> returns EOF. Called again on the connection it left,
  \<^verbatim>\<open>Start\<close> returns nil.
\<close>

theorem Start_from_Play_witness:
  "state after_eof = StatePlay \<and>
   Start failing_handle (example_conn ModePassiveProducer StateSetup)
     = Some (Some (External ''EOF''), after_eof) \<and>
   Start failing_handle after_eof = Some (None, after_eof)"
proof -
  let ?b = "example_conn ModePassiveProducer StateSetup"
  have h: "state after_eof = StatePlay"
    by (simp add: after_eof_def example_conn_def)
  have m: "mode after_eof = ModePassiveProducer" "mode ?b = ModePassiveProducer"
    by (simp_all add: after_eof_def example_conn_def)
  have sw: "Start_switch failing_handle None ?b = (True, None, example_conn ModePassiveProducer StatePlay)"
    by (simp add: Start_switch_def example_conn_def)
  have ha: "do_Handle failing_handle (example_conn ModePassiveProducer StatePlay)
              = (Some (External ''EOF''), after_eof)"
    by (simp add: do_Handle_def invoke_def failing_handle_def example_externals_def
        after_eof_def example_conn_def)
  from Start_from_Play [OF h, of failing_handle "Some (External ''EOF'')"] h m sw ha
  show ?thesis by simp
qed

section \<open>Reconnect\<close>

subsection \<open>What a call adds to the record of calls\<close>

lemma invoke_simps [simp]:
  "fst (invoke call r c) = fst r"
  "calls (snd (invoke call r c)) = calls c @ [(call, reported (fst r))]"
  by (simp_all add: invoke_def)

lemma do_Fire_calls [simp]:
  "calls (do_Fire T msg c) = calls c @ [(CallFire msg, Done)]"
  by (simp add: do_Fire_def)

lemma do_SetupMedia_calls [simp]:
  "calls (snd (do_SetupMedia T m c)) =
     calls c @ [(CallSetupMedia m, negotiated (fst (do_SetupMedia T m c)))]"
  by (simp add: do_SetupMedia_def Let_def)

lemma do_Close_calls [simp]:
  "calls (snd (do_Close T c)) = calls c @ [(CallClose, reported (fst (do_Close T c)))]"
  by (simp add: do_Close_def)

lemma do_Dial_calls [simp]:
  "calls (snd (do_Dial T c)) = calls c @ [(CallDial, reported (fst (do_Dial T c)))]"
  by (simp add: do_Dial_def)

lemma do_Describe_calls [simp]:
  "calls (snd (do_Describe T c)) = calls c @ [(CallDescribe, reported (fst (do_Describe T c)))]"
  by (simp add: do_Describe_def)

subsection \<open>Runs\<close>

lemma run_append: "run T (xs @ ys) c = run T ys (run T xs c)"
  by (induction xs arbitrary: c) simp_all

text \<open>
  A field that the collaborators of \<^verbatim>\<open>Reconnect\<close> leave, and that is not the record of
  calls, is the same after any run of calls to them.
\<close>

lemma perform_leaves:
  assumes "transport_leaves T f" and "\<And>d x. f (d\<lparr>calls := x\<rparr>) = f d"
    and "call \<in> range CallFire \<union> {CallClose, CallDial, CallDescribe} \<union> range CallSetupMedia"
  shows "f (perform T call c) = f c"
  using assms
  by (auto simp: transport_leaves_def do_Fire_def do_Close_def do_Dial_def do_Describe_def
      do_SetupMedia_def invoke_def Let_def)

lemma run_leaves:
  assumes "transport_leaves T f" and "\<And>d x. f (d\<lparr>calls := x\<rparr>) = f d"
    and "set plan \<subseteq> range CallFire \<union> {CallClose, CallDial, CallDescribe} \<union> range CallSetupMedia"
  shows "f (run T plan c) = f c"
  using assms(3)
proof (induction plan arbitrary: c)
  case Nil
  show ?case by simp
next
  case (Cons call plan)
  have "f (run T plan (perform T call c)) = f (perform T call c)"
    using Cons by simp
  also have "\<dots> = f c"
    using perform_leaves [OF assms(1,2), of call c] Cons.prems by simp
  finally show ?case by simp
qed

subsection \<open>The replay of the setups\<close>

lemma stops_at_error_append:
  "\<forall>ev \<in> set evs. ignored (fst ev) \<or> (\<forall>err. snd ev \<noteq> Failed err) \<Longrightarrow>
   stops_at_error (evs @ evs') res = stops_at_error evs' res"
  by (induction evs) (auto split: outcome.splits)

lemma restore_medias_run:
  "\<exists>evs. calls (snd (restore_medias T ts c)) = calls c @ evs
     \<and> snd (restore_medias T ts c) = run T (map fst evs) c
     \<and> prefix (map fst evs) (map (\<lambda>t. CallSetupMedia (Media t)) ts)
     \<and> stops_at_error evs (fst (restore_medias T ts c))
     \<and> (fst (restore_medias T ts c) = None \<longrightarrow>
          map fst evs = map (\<lambda>t. CallSetupMedia (Media t)) ts
          \<and> (\<forall>ev \<in> set evs. \<forall>err. snd ev \<noteq> Failed err))"
proof (induction ts arbitrary: c)
  case Nil
  show ?case by simp
next
  case (Cons t ts)
  obtain r c' where r: "do_SetupMedia T (Media t) c = (r, c')"
    by (cases "do_SetupMedia T (Media t) c")
  have c': "calls c' = calls c @ [(CallSetupMedia (Media t), negotiated r)]"
    using do_SetupMedia_calls [of T "Media t" c] r by simp
  have p: "perform T (CallSetupMedia (Media t)) c = c'"
    using r by simp
  show ?case
  proof (cases r)
    case (Inl err)
    show ?thesis
      by (rule exI [of _ "[(CallSetupMedia (Media t), Failed err)]"])
         (simp add: r Inl c' p)
  next
    case (Inr ch)
    from Cons.IH [of c'] obtain evs where evs:
      "calls (snd (restore_medias T ts c')) = calls c' @ evs"
      "snd (restore_medias T ts c') = run T (map fst evs) c'"
      "prefix (map fst evs) (map (\<lambda>t. CallSetupMedia (Media t)) ts)"
      "stops_at_error evs (fst (restore_medias T ts c'))"
      "fst (restore_medias T ts c') = None \<longrightarrow>
          map fst evs = map (\<lambda>t. CallSetupMedia (Media t)) ts
          \<and> (\<forall>ev \<in> set evs. \<forall>err. snd ev \<noteq> Failed err)"
      by (elim exE conjE) (rule that)
    let ?evs = "(CallSetupMedia (Media t), Assigned ch) # evs"
    have e1: "calls (snd (restore_medias T (t # ts) c)) = calls c @ ?evs"
      using r Inr c' evs(1) by simp
    have e2: "snd (restore_medias T (t # ts) c) = run T (map fst ?evs) c"
      using r Inr evs(2) p by simp
    have e3: "prefix (map fst ?evs) (map (\<lambda>t. CallSetupMedia (Media t)) (t # ts))"
      using evs(3) by simp
    have e4: "stops_at_error ?evs (fst (restore_medias T (t # ts) c))"
      using r Inr evs(4) by simp
    have e5: "fst (restore_medias T (t # ts) c) = None \<longrightarrow>
          map fst ?evs = map (\<lambda>t. CallSetupMedia (Media t)) (t # ts)
          \<and> (\<forall>ev \<in> set ?evs. \<forall>err. snd ev \<noteq> Failed err)"
      using r Inr evs(5) by simp
    show ?thesis
      by (rule exI [of _ ?evs]) (intro conjI e1 e2 e3 e4 e5)
  qed
qed

lemma setup_calls:
  assumes "prefix plan (map (\<lambda>t. CallSetupMedia (Media t)) ts)"
  shows "set plan \<subseteq> range CallFire \<union> {CallClose, CallDial, CallDescribe} \<union> range CallSetupMedia"
  using set_mono_prefix [OF assms] by auto

lemma setup_events_only:
  assumes "prefix (map fst evs) (map (\<lambda>t. CallSetupMedia (Media t)) ts)"
  shows "(CallDescribe, out) \<notin> set evs"
proof
  assume "(CallDescribe, out) \<in> set evs"
  then have "CallDescribe \<in> set (map fst evs)" by force
  with set_mono_prefix [OF assms] show False by auto
qed
subsection \<open>The whole reconnect\<close>

lemma plan_calls:
  "set (Reconnect_plan c) \<subseteq> range CallFire \<union> {CallClose, CallDial, CallDescribe} \<union> range CallSetupMedia"
  by (auto simp: Reconnect_plan_def)

lemma Reconnect_run:
  assumes R: "transport_leaves T Receivers" and S: "transport_leaves T Senders"
  shows "\<exists>evs. calls (snd (Reconnect T c)) = calls c @ evs
     \<and> snd (Reconnect T c) = run T (map fst evs) c
     \<and> prefix (map fst evs) (Reconnect_plan c)
     \<and> stops_at_error evs (fst (Reconnect T c))
     \<and> (fst (Reconnect T c) = None \<longrightarrow> map fst evs = Reconnect_plan c)
     \<and> (\<forall>err. (CallDescribe, Failed err) \<in> set evs \<longrightarrow>
           fst (Reconnect T c) = Some err \<and> map fst evs = take 4 (Reconnect_plan c))"
proof -
  define c1 where "c1 = do_Fire T ''RTSP reconnect'' c"
  define c2 where "c2 = snd (do_Close T c1)"
  define ev0 where "ev0 = [(CallFire ''RTSP reconnect'', Done), (CallClose :: 'a call, reported (fst (do_Close T c1)))]"
  obtain e3 c3 where d3: "do_Dial T c2 = (e3, c3)" by (cases "do_Dial T c2")
  obtain e4 c4 where d4: "do_Describe T c3 = (e4, c4)" by (cases "do_Describe T c3")
  obtain e5 c5 where d5: "restore_medias T (Receivers c4) c4 = (e5, c5)"
    by (cases "restore_medias T (Receivers c4) c4")
  obtain e6 c6 where d6: "restore_medias T (Senders c5) c5 = (e6, c6)"
    by (cases "restore_medias T (Senders c5) c5")
  have l2: "calls c2 = calls c @ ev0"
    by (simp add: c2_def c1_def ev0_def)
  have l3: "calls c3 = calls c @ ev0 @ [(CallDial, reported e3)]"
    using do_Dial_calls [of T c2] d3 l2 by simp
  have l4: "calls c4 = calls c @ ev0 @ [(CallDial, reported e3), (CallDescribe, reported e4)]"
    using do_Describe_calls [of T c3] d4 l3 by simp
  have u2: "c2 = run T (map fst ev0) c"
    by (simp add: c2_def c1_def ev0_def)
  have u3: "c3 = run T (map fst ev0 @ [CallDial]) c"
    using d3 u2 by (simp add: run_append)
  have u4: "c4 = run T (map fst ev0 @ [CallDial, CallDescribe]) c"
    using d4 u3 by (simp add: run_append)
  have r4: "Receivers c4 = Receivers c"
    unfolding u4 by (rule run_leaves [OF R]) (simp_all add: ev0_def)
  have s4: "Senders c4 = Senders c"
    unfolding u4 by (rule run_leaves [OF S]) (simp_all add: ev0_def)
  have R: "Reconnect T c =
      (case e3 of Some err \<Rightarrow> (Some err, c3) | None \<Rightarrow>
       (case e4 of Some err \<Rightarrow> (Some err, c4) | None \<Rightarrow>
        (case e5 of Some err \<Rightarrow> (Some err, c5) | None \<Rightarrow> (e6, c6))))"
    unfolding Reconnect_def Let_def c1_def [symmetric] c2_def [symmetric]
    using d3 d4 d5 d6 by (simp split: option.split)
  show ?thesis
  proof (cases e3)
    case (Some err)
    let ?evs = "ev0 @ [(CallDial, Failed err)]"
    have a: "snd (Reconnect T c) = c3" "fst (Reconnect T c) = Some err"
      using R Some by simp_all
    have "calls (snd (Reconnect T c)) = calls c @ ?evs"
      using a(1) l3 Some by simp
    moreover have "snd (Reconnect T c) = run T (map fst ?evs) c"
      using a(1) u3 by simp
    moreover have "prefix (map fst ?evs) (Reconnect_plan c)"
      by (simp add: ev0_def Reconnect_plan_def)
    moreover have "stops_at_error ?evs (fst (Reconnect T c))"
      using a(2) by (simp add: ev0_def)
    moreover have "(CallDescribe, Failed err') \<notin> set ?evs" for err'
      by (simp add: ev0_def)
    ultimately show ?thesis
      using a(2) by (intro exI [of _ ?evs]) simp
  next
    case e3: None
    show ?thesis
    proof (cases e4)
      case (Some err)
      let ?evs = "ev0 @ [(CallDial, Done), (CallDescribe, Failed err)]"
      have a: "snd (Reconnect T c) = c4" "fst (Reconnect T c) = Some err"
        using R e3 Some by simp_all
      have "calls (snd (Reconnect T c)) = calls c @ ?evs"
        using a(1) l4 e3 Some by simp
      moreover have "snd (Reconnect T c) = run T (map fst ?evs) c"
        using a(1) u4 by simp
      moreover have "prefix (map fst ?evs) (Reconnect_plan c)"
        by (simp add: ev0_def Reconnect_plan_def)
      moreover have "stops_at_error ?evs (fst (Reconnect T c))"
        using a(2) by (simp add: ev0_def)
      moreover have "map fst ?evs = take 4 (Reconnect_plan c)"
        by (simp add: ev0_def Reconnect_plan_def)
      moreover have "(CallDescribe, Failed err') \<in> set ?evs \<longrightarrow> err' = err" for err'
        by (simp add: ev0_def)
      ultimately show ?thesis
        using a(2) by (intro exI [of _ ?evs]) simp
    next
      case e4: None
      from restore_medias_run [of T "Receivers c4" c4] d5 r4
      obtain evR where evR: "calls c5 = calls c4 @ evR"
        "c5 = run T (map fst evR) c4"
        "prefix (map fst evR) (map (\<lambda>t. CallSetupMedia (Media t)) (Receivers c))"
        "stops_at_error evR e5"
        "e5 = None \<longrightarrow> map fst evR = map (\<lambda>t. CallSetupMedia (Media t)) (Receivers c)
           \<and> (\<forall>ev \<in> set evR. \<forall>err. snd ev \<noteq> Failed err)"
        by auto
      have s5: "Senders c5 = Senders c"
        using run_leaves [OF S _ setup_calls [OF evR(3)], of c4] evR(2) s4 by simp
      from restore_medias_run [of T "Senders c5" c5] d6 s5
      obtain evS where evS: "calls c6 = calls c5 @ evS"
        "c6 = run T (map fst evS) c5"
        "prefix (map fst evS) (map (\<lambda>t. CallSetupMedia (Media t)) (Senders c))"
        "stops_at_error evS e6"
        "e6 = None \<longrightarrow> map fst evS = map (\<lambda>t. CallSetupMedia (Media t)) (Senders c)
           \<and> (\<forall>ev \<in> set evS. \<forall>err. snd ev \<noteq> Failed err)"
        by auto
      let ?pre = "ev0 @ [(CallDial, Done), (CallDescribe, Done)]"
      have pre: "map fst ?pre = [CallFire ''RTSP reconnect'', CallClose, CallDial, CallDescribe]"
        by (simp add: ev0_def)
      have u4': "c4 = run T (map fst ?pre) c"
        using u4 by simp
      have pass: "stops_at_error (?pre @ evs) res = stops_at_error evs res" for evs res
        by (simp add: ev0_def)
      have nodesc: "(CallDescribe, Failed err) \<notin> set ?pre" for err
        by (simp add: ev0_def)
      show ?thesis
      proof (cases e5)
        case (Some err)
        have "calls (snd (Reconnect T c)) = calls c @ (?pre @ evR)"
          using R e3 e4 Some evR(1) l4 by simp
        moreover have "snd (Reconnect T c) = run T (map fst (?pre @ evR)) c"
          using R e3 e4 Some evR(2) u4' by (simp only: map_append run_append option.case snd_conv)
        moreover have "prefix (map fst (?pre @ evR)) (Reconnect_plan c)"
          unfolding Reconnect_plan_def using evR(3)
          by (simp add: ev0_def)
        moreover have "stops_at_error (?pre @ evR) (fst (Reconnect T c))"
          using R e3 e4 Some evR(4) pass by simp
        moreover have "fst (Reconnect T c) = None \<longrightarrow> map fst (?pre @ evR) = Reconnect_plan c"
          using R e3 e4 Some by simp
        moreover have "(CallDescribe, Failed err') \<notin> set (?pre @ evR)" for err'
          using nodesc [of err'] setup_events_only [OF evR(3)] by simp
        ultimately show ?thesis
          by (intro exI [of _ "?pre @ evR"]) simp
      next
        case e5: None
        have pR: "stops_at_error (evR @ evs) res = stops_at_error evs res" for evs res
          using evR(5) e5 by (intro stops_at_error_append) simp
        have "calls (snd (Reconnect T c)) = calls c @ (?pre @ evR @ evS)"
          using R e3 e4 e5 evR(1) evS(1) l4 by simp
        moreover have "snd (Reconnect T c) = run T (map fst (?pre @ evR @ evS)) c"
          using R e3 e4 e5 evR(2) evS(2) u4' by (simp only: map_append run_append option.case snd_conv)
        moreover have "prefix (map fst (?pre @ evR @ evS)) (Reconnect_plan c)"
          unfolding Reconnect_plan_def using evR(5) e5 evS(3)
          by (simp add: ev0_def)
        moreover have "stops_at_error (?pre @ evR @ evS) (fst (Reconnect T c))"
          using R e3 e4 e5 evS(4) pass pR by simp
        moreover have "fst (Reconnect T c) = None \<longrightarrow> map fst (?pre @ evR @ evS) = Reconnect_plan c"
          unfolding Reconnect_plan_def using R e3 e4 e5 evR(5) evS(5) by (simp add: ev0_def)
        moreover have "(CallDescribe, Failed err') \<notin> set (?pre @ evR @ evS)" for err'
          using nodesc [of err'] setup_events_only [OF evR(3)] setup_events_only [OF evS(3)] by simp
        ultimately show ?thesis
          by (intro exI [of _ "?pre @ evR @ evS"]) simp
      qed
    qed
  qed
qed

text \<open>
  Three reconnects of a playing connection with one receiver and one sender: one that
  succeeds; one whose close of the old session fails (the error is dropped) and whose describe
  fails; one whose second setup, that of the sender, fails.
\<close>

lemma Reconnect_example:
  "Reconnect example_externals (example_conn ModeActiveProducer StatePlay) =
     (None, (example_conn ModeActiveProducer StatePlay)
        \<lparr>session := 2,
         calls := [(CallFire ''RTSP reconnect'', Done), (CallClose, Done), (CallDial, Done),
                   (CallDescribe, Done), (CallSetupMedia video, Assigned 0),
                   (CallSetupMedia backchannel, Assigned 2)]\<rparr>)"
  by (simp add: Reconnect_def do_Fire_def do_Close_def do_Dial_def do_Describe_def
      do_SetupMedia_def invoke_def example_externals_def example_conn_def Let_def
      video_track_def backchannel_track_def)





section \<open>Stop\<close>









section \<open>GetTrack\<close>

subsection \<open>The server side\<close>

lemma add_receiver_Recvonly:
  "Direction m = DirectionRecvonly \<Longrightarrow>
   add_receiver c m codec channel =
     (Inr \<lparr>Media = m, Codec = codec, ID = channel\<rparr>,
      c\<lparr>Receivers := Receivers c @ [\<lparr>Media = m, Codec = codec, ID = channel\<rparr>]\<rparr>)"
  by (simp add: add_receiver_def NewReceiver_def Let_def)

text \<open>A byte holds twice a count exactly when the count is below 128.\<close>

lemma channel_of_count:
  "unat (word_of_nat (n * 2) :: byte) = (2 * n) mod 256"
  "unat ((word_of_nat n :: byte) * 2) = (2 * n) mod 256"
proof -
  show a: "unat (word_of_nat (n * 2) :: byte) = (2 * n) mod 256"
    unfolding unat_of_nat by (simp add: mult.commute)
  have "(word_of_nat n :: byte) * 2 = word_of_nat (n * 2)"
    by simp
  then show "unat ((word_of_nat n :: byte) * 2) = (2 * n) mod 256"
    using a by (simp only:)
qed

text \<open>
  Claim C3, as stated, fails: on the server side a media that is not receive-only gets no
  track. \<^verbatim>\<open>GetTrack\<close> returns the error of the test that follows the \<^verbatim>\<open>switch\<close>.
\<close>

theorem GetTrack_server_sendonly_fails:
  "mode (example_conn ModePassiveConsumer StateNone) = ModePassiveConsumer \<and>
   Direction backchannel \<noteq> DirectionRecvonly \<and>
   GetTrack example_externals (example_conn ModePassiveConsumer StateNone) backchannel ''PCMA'' =
     (Inl (GetTrackInternalLogicError ModePassiveConsumer DirectionSendonly),
      example_conn ModePassiveConsumer StateNone)"
  by (simp add: GetTrack_def cached_track_def GetTrack_locked_def add_receiver_def
      example_conn_def backchannel_def Let_def)

text \<open>
  Claim C3, amended. In the role \<^verbatim>\<open>ModePassiveConsumer\<close>, \<^verbatim>\<open>GetTrack\<close> with a media
  whose direction is not receive-only returns no track: it returns the error "GetTrack
  internal logic error" for that role and that direction, and the connection is the one
  before the call, so that nothing is registered in the receivers or in the senders.
\<close>

theorem GetTrack_server_not_recvonly:
  assumes "mode c = ModePassiveConsumer" and "Direction m \<noteq> DirectionRecvonly"
  shows "GetTrack T c m codec =
           (Inl (GetTrackInternalLogicError ModePassiveConsumer (Direction m)), c)"
  using assms
  by (simp add: GetTrack_def cached_track_def GetTrack_locked_def add_receiver_def Let_def)

theorem GetTrack_server_not_recvonly_witness:
  "mode crowded_conn = ModePassiveConsumer \<and>
   Direction \<lparr>media_addr = 4, Direction = DirectionSendRecv\<rparr> \<noteq> DirectionRecvonly \<and>
   GetTrack example_externals crowded_conn \<lparr>media_addr = 4, Direction = DirectionSendRecv\<rparr> ''OPUS'' =
     (Inl (GetTrackInternalLogicError ModePassiveConsumer DirectionSendRecv), crowded_conn)"
proof -
  have h: "mode crowded_conn = ModePassiveConsumer"
    "Direction \<lparr>media_addr = 4, Direction = DirectionSendRecv\<rparr> \<noteq> DirectionRecvonly"
    by (simp_all add: crowded_conn_def)
  from GetTrack_server_not_recvonly [OF h, of example_externals "''OPUS''"] h
  show ?thesis by simp
qed

text \<open>
  Claim C9, as stated, fails: with 128 receivers in the registry the channel of the next
  receive-only track is 0, not 256, since the channel is one byte.
\<close>

theorem GetTrack_server_channel_wraps:
  "mode crowded_conn = ModePassiveConsumer \<and> Direction audio = DirectionRecvonly \<and>
   cached_track example_externals crowded_conn audio ''PCMA'' = None \<and>
   length (Receivers crowded_conn) = 128 \<and>
   fst (GetTrack example_externals crowded_conn audio ''PCMA'') =
     Inr \<lparr>Media = audio, Codec = ''PCMA'', ID = 0\<rparr> \<and>
   unat (ID \<lparr>Media = audio, Codec = ''PCMA'', ID = 0\<rparr>) \<noteq> 2 * length (Receivers crowded_conn)"
proof -
  have n: "cached_track example_externals crowded_conn audio ''PCMA'' = None"
    by (simp add: cached_track_def crowded_conn_def find_None_iff video_track_def
        video_def audio_def)
  have d: "Direction audio = DirectionRecvonly"
    by (simp add: audio_def)
  have l: "length (Receivers crowded_conn) = 128" "mode crowded_conn = ModePassiveConsumer"
    by (simp_all add: crowded_conn_def)
  have "fst (GetTrack example_externals crowded_conn audio ''PCMA'') =
     Inr \<lparr>Media = audio, Codec = ''PCMA'', ID = 0\<rparr>"
    by (simp add: GetTrack_def n GetTrack_locked_def l add_receiver_Recvonly [OF d] d)
  with n d l show ?thesis by simp
qed

text \<open>
  Claim C9, amended. In the role \<^verbatim>\<open>ModePassiveConsumer\<close>, \<^verbatim>\<open>GetTrack\<close> with a
  receive-only media that is not cached returns, without error, a new track for the media
  and the codec whose channel is twice the number of receivers, kept in one byte (that is,
  modulo 256), and the connection afterwards is the one before with that track added at the
  end of the receivers. With fewer than 128 receivers the channel is twice their number:
  the track number \<open>N\<close>, counted from 0, gets the channel \<open>2N\<close>.
\<close>

theorem GetTrack_server_recvonly:
  assumes "mode c = ModePassiveConsumer" and "Direction m = DirectionRecvonly"
    and "cached_track T c m codec = None"
  shows "GetTrack T c m codec =
           (Inr \<lparr>Media = m, Codec = codec, ID = word_of_nat (length (Receivers c) * 2)\<rparr>,
            c\<lparr>Receivers := Receivers c @
                 [\<lparr>Media = m, Codec = codec, ID = word_of_nat (length (Receivers c) * 2)\<rparr>]\<rparr>) \<and>
         unat (word_of_nat (length (Receivers c) * 2) :: byte) = (2 * length (Receivers c)) mod 256 \<and>
         (length (Receivers c) < 128 \<longrightarrow>
            unat (word_of_nat (length (Receivers c) * 2) :: byte) = 2 * length (Receivers c))"
proof -
  have "GetTrack T c m codec =
           (Inr \<lparr>Media = m, Codec = codec, ID = word_of_nat (length (Receivers c) * 2)\<rparr>,
            c\<lparr>Receivers := Receivers c @
                 [\<lparr>Media = m, Codec = codec, ID = word_of_nat (length (Receivers c) * 2)\<rparr>]\<rparr>)"
    using assms by (simp add: GetTrack_def GetTrack_locked_def add_receiver_Recvonly)
  then show ?thesis
    by (simp add: channel_of_count)
qed

theorem GetTrack_server_recvonly_witness:
  "mode (example_conn ModePassiveConsumer StateNone) = ModePassiveConsumer \<and>
   Direction audio = DirectionRecvonly \<and>
   cached_track example_externals (example_conn ModePassiveConsumer StateNone) audio ''PCMA'' = None \<and>
   length (Receivers (example_conn ModePassiveConsumer StateNone)) < 128 \<and>
   GetTrack example_externals (example_conn ModePassiveConsumer StateNone) audio ''PCMA'' =
     (Inr \<lparr>Media = audio, Codec = ''PCMA'', ID = 2\<rparr>,
      (example_conn ModePassiveConsumer StateNone)
        \<lparr>Receivers := [video_track, \<lparr>Media = audio, Codec = ''PCMA'', ID = 2\<rparr>]\<rparr>)"
proof -
  let ?c = "example_conn ModePassiveConsumer StateNone"
  have h: "mode ?c = ModePassiveConsumer" "Direction audio = DirectionRecvonly"
    "cached_track example_externals ?c audio ''PCMA'' = None"
    by (simp_all add: example_conn_def audio_def cached_track_def video_track_def video_def)
  have l: "Receivers ?c = [video_track]"
    by (simp add: example_conn_def)
  from GetTrack_server_recvonly [OF h] h l show ?thesis by simp
qed

text \<open>
  Claim C10. The channel that the server side gives to a new receive-only track is the byte
  of twice the number of receivers, so it is that number modulo 256. It is twice the number
  of receivers exactly when there are fewer than 128 of them; from 128 receivers on it is
  smaller; with exactly 128 receivers it is 0, the channel that the first track of an empty
  registry gets.
\<close>

theorem GetTrack_channel_modulo:
  assumes "mode c = ModePassiveConsumer" and "Direction m = DirectionRecvonly"
    and "cached_track T c m codec = None"
  shows "\<exists>track. fst (GetTrack T c m codec) = Inr track \<and>
           unat (ID track) = (2 * length (Receivers c)) mod 256 \<and>
           (unat (ID track) = 2 * length (Receivers c) \<longleftrightarrow> length (Receivers c) < 128) \<and>
           (128 \<le> length (Receivers c) \<longrightarrow> unat (ID track) < 2 * length (Receivers c)) \<and>
           (length (Receivers c) = 128 \<or> length (Receivers c) = 0 \<longrightarrow> ID track = 0)"
proof -
  let ?n = "length (Receivers c)"
  let ?track = "\<lparr>Media = m, Codec = codec, ID = (word_of_nat (?n * 2) :: byte)\<rparr>"
  have g: "fst (GetTrack T c m codec) = Inr ?track"
    using assms by (simp add: GetTrack_def GetTrack_locked_def add_receiver_Recvonly)
  have u: "unat (ID ?track) = (2 * ?n) mod 256"
    by (simp add: channel_of_count)
  have e: "(unat (ID ?track) = 2 * ?n) = (?n < 128)"
    unfolding u by auto
  have w: "128 \<le> ?n \<longrightarrow> unat (ID ?track) < 2 * ?n"
    unfolding u by auto
  have z: "?n = 128 \<or> ?n = 0 \<longrightarrow> ID ?track = 0"
    by auto
  show ?thesis
    by (rule exI [of _ ?track]) (intro conjI g u e w z)
qed

theorem GetTrack_channel_modulo_witness:
  "mode crowded_conn = ModePassiveConsumer \<and> Direction video = DirectionRecvonly \<and>
   cached_track example_externals crowded_conn video ''H265'' = None \<and>
   length (Receivers crowded_conn) = 128 \<and>
   (\<exists>track. fst (GetTrack example_externals crowded_conn video ''H265'') = Inr track \<and>
            ID track = 0 \<and> unat (ID track) < 2 * length (Receivers crowded_conn))"
proof -
  have h: "mode crowded_conn = ModePassiveConsumer" "Direction video = DirectionRecvonly"
    "cached_track example_externals crowded_conn video ''H265'' = None"
    by (simp_all add: crowded_conn_def video_def cached_track_def find_None_iff
        video_track_def example_externals_def)
  have l: "length (Receivers crowded_conn) = 128"
    by (simp add: crowded_conn_def)
  from GetTrack_channel_modulo [OF h] h l show ?thesis by auto
qed
subsection \<open>The client side\<close>

lemma Reconnect_leaves:
  assumes "transport_leaves T Receivers" and "transport_leaves T Senders"
  shows "Receivers (snd (Reconnect T c)) = Receivers c \<and> Senders (snd (Reconnect T c)) = Senders c"
proof -
  from Reconnect_run [OF assms, of c] obtain evs where evs:
    "snd (Reconnect T c) = run T (map fst evs) c" "prefix (map fst evs) (Reconnect_plan c)"
    "calls (snd (Reconnect T c)) = calls c @ evs"
    by (elim exE conjE) (rule that)
  have sub: "set (map fst evs) \<subseteq>
      range CallFire \<union> {CallClose, CallDial, CallDescribe} \<union> range CallSetupMedia"
    using set_mono_prefix [OF evs(2)] plan_calls [of c] by (rule subset_trans)
  have "Receivers (snd (Reconnect T c)) = Receivers c"
    unfolding evs(1) by (rule run_leaves [OF assms(1) _ sub]) simp
  moreover have "Senders (snd (Reconnect T c)) = Senders c"
    unfolding evs(1) by (rule run_leaves [OF assms(2) _ sub]) simp
  ultimately show ?thesis by simp
qed

text \<open>
  Claim C8. Let the role be \<^verbatim>\<open>ModeActiveProducer\<close> and the media send-only, let \<open>c1\<close>
  be the connection at the setup (the connection of the call, or, when that one was playing,
  the one a successful reconnect left), and let \<^verbatim>\<open>SetupMedia\<close> on \<open>c1\<close> assign a
  channel and leave \<open>c2\<close>. Then \<^verbatim>\<open>GetTrack\<close> returns, without error, a new track for the
  media and the codec whose channel is the assigned one, and the connection afterwards is
  \<open>c2\<close> with the state \<^verbatim>\<open>StateSetup\<close> (and the setup in the record of calls): the
  receivers and the senders are those that \<^verbatim>\<open>SetupMedia\<close> left, the new track is in
  neither, and they are those before the call when the collaborators leave the registries as
  they find them.
\<close>

theorem GetTrack_client_sendonly:
  assumes "mode c = ModeActiveProducer" and "Direction m = DirectionSendonly"
    and "state c = StatePlay \<longrightarrow> Reconnect T c = (None, c1)"
    and "state c \<noteq> StatePlay \<longrightarrow> c1 = c"
    and "SetupMedia T m c1 = (Inr channel, c2)"
  shows "GetTrack T c m codec =
           (Inr \<lparr>Media = m, Codec = codec, ID = channel\<rparr>,
            c2\<lparr>state := StateSetup, calls := calls c1 @ [(CallSetupMedia m, Assigned channel)]\<rparr>) \<and>
         state (snd (GetTrack T c m codec)) = StateSetup \<and>
         Receivers (snd (GetTrack T c m codec)) = Receivers c2 \<and>
         Senders (snd (GetTrack T c m codec)) = Senders c2 \<and>
         (transport_leaves T Receivers \<and> transport_leaves T Senders \<longrightarrow>
            Receivers (snd (GetTrack T c m codec)) = Receivers c \<and>
            Senders (snd (GetTrack T c m codec)) = Senders c)"
proof -
  have r: "(if state c = StatePlay then Reconnect T c else (None, c)) = (None, c1)"
    using assms(3,4) by simp
  have s: "do_SetupMedia T m c1 =
      (Inr channel, c2\<lparr>calls := calls c1 @ [(CallSetupMedia m, Assigned channel)]\<rparr>)"
    using assms(5) by (simp add: do_SetupMedia_def)
  have n: "cached_track T c m codec = None"
    using assms(2) by (simp add: cached_track_def)
  have g: "GetTrack T c m codec =
           (Inr \<lparr>Media = m, Codec = codec, ID = channel\<rparr>,
            c2\<lparr>state := StateSetup, calls := calls c1 @ [(CallSetupMedia m, Assigned channel)]\<rparr>)"
    unfolding GetTrack_def n GetTrack_locked_def r
    using assms(1,2) s by (simp add: NewReceiver_def)
  have k: "Receivers c2 = Receivers c \<and> Senders c2 = Senders c"
    if l: "transport_leaves T Receivers" "transport_leaves T Senders"
  proof -
    have "Receivers c1 = Receivers c \<and> Senders c1 = Senders c"
      using Reconnect_leaves [OF l, of c] assms(3,4) by (cases "state c = StatePlay") simp_all
    moreover have "Receivers c2 = Receivers c1 \<and> Senders c2 = Senders c1"
      using l assms(5) by (auto simp: transport_leaves_def dest!: spec [of _ m] spec [of _ c1])
    ultimately show ?thesis by simp
  qed
  show ?thesis
    using g k by simp
qed

text \<open>
  A client that asks for the backchannel: once on a connection that is set up, once on a
  playing connection, where the reconnect replays the two setups first.
\<close>

theorem GetTrack_client_sendonly_witness:
  "mode (example_conn ModeActiveProducer StateSetup) = ModeActiveProducer \<and>
   Direction backchannel = DirectionSendonly \<and>
   SetupMedia example_externals backchannel (example_conn ModeActiveProducer StateSetup) =
     (Inr 4, (example_conn ModeActiveProducer StateSetup)\<lparr>session := 3\<rparr>) \<and>
   GetTrack example_externals (example_conn ModeActiveProducer StateSetup) backchannel ''PCMA'' =
     (Inr \<lparr>Media = backchannel, Codec = ''PCMA'', ID = 4\<rparr>,
      (example_conn ModeActiveProducer StateSetup)
        \<lparr>session := 3, calls := [(CallSetupMedia backchannel, Assigned 4)]\<rparr>) \<and>
   fst (GetTrack example_externals (example_conn ModeActiveProducer StatePlay) backchannel ''PCMA'') =
     Inr \<lparr>Media = backchannel, Codec = ''PCMA'', ID = 4\<rparr> \<and>
   state (snd (GetTrack example_externals (example_conn ModeActiveProducer StatePlay) backchannel ''PCMA''))
     = StateSetup \<and>
   Receivers (snd (GetTrack example_externals (example_conn ModeActiveProducer StatePlay) backchannel ''PCMA''))
     = [video_track] \<and>
   Senders (snd (GetTrack example_externals (example_conn ModeActiveProducer StatePlay) backchannel ''PCMA''))
     = [backchannel_track]"
proof -
  let ?a = "example_conn ModeActiveProducer StateSetup"
  let ?b = "example_conn ModeActiveProducer StatePlay"
  let ?b1 = "?b\<lparr>session := 2,
         calls := [(CallFire ''RTSP reconnect'', Done), (CallClose, Done), (CallDial, Done),
                   (CallDescribe, Done), (CallSetupMedia video, Assigned 0),
                   (CallSetupMedia backchannel, Assigned 2)]\<rparr>"
  have m: "mode ?a = ModeActiveProducer" "mode ?b = ModeActiveProducer"
    by (simp_all add: example_conn_def)
  have d: "Direction backchannel = DirectionSendonly"
    by (simp add: backchannel_def)
  have a1: "state ?a = StatePlay \<longrightarrow> Reconnect example_externals ?a = (None, ?a)"
    and a2: "state ?a \<noteq> StatePlay \<longrightarrow> ?a = ?a"
    by (simp_all add: example_conn_def)
  have a3: "SetupMedia example_externals backchannel ?a = (Inr 4, ?a\<lparr>session := 3\<rparr>)"
    by (simp add: example_externals_def example_conn_def)
  have b1: "state ?b = StatePlay \<longrightarrow> Reconnect example_externals ?b = (None, ?b1)"
    and b2: "state ?b \<noteq> StatePlay \<longrightarrow> ?b1 = ?b"
    by (simp_all add: Reconnect_example) (simp add: example_conn_def)
  have b3: "SetupMedia example_externals backchannel ?b1 = (Inr 4, ?b1\<lparr>session := 3\<rparr>)"
    by (simp add: example_externals_def example_conn_def)
  have l: "transport_leaves example_externals Receivers" "transport_leaves example_externals Senders"
    by (simp_all add: transport_leaves_def example_externals_def)
  have c: "Receivers ?b = [video_track]" "Senders ?b = [backchannel_track]" "calls ?a = []"
    by (simp_all add: example_conn_def)
  from GetTrack_client_sendonly [OF m(1) d a1 a2 a3, of "''PCMA''"]
  have first: "GetTrack example_externals ?a backchannel ''PCMA'' =
     (Inr \<lparr>Media = backchannel, Codec = ''PCMA'', ID = 4\<rparr>,
      ?a\<lparr>session := 3, calls := [(CallSetupMedia backchannel, Assigned 4)]\<rparr>)"
    by (simp add: example_conn_def)
  from GetTrack_client_sendonly [OF m(2) d b1 b2 b3, of "''PCMA''"] l c
  have second: "fst (GetTrack example_externals ?b backchannel ''PCMA'') =
     Inr \<lparr>Media = backchannel, Codec = ''PCMA'', ID = 4\<rparr>"
    "state (snd (GetTrack example_externals ?b backchannel ''PCMA'')) = StateSetup"
    "Receivers (snd (GetTrack example_externals ?b backchannel ''PCMA'')) = [video_track]"
    "Senders (snd (GetTrack example_externals ?b backchannel ''PCMA'')) = [backchannel_track]"
    by simp_all
  show ?thesis
    by (intro conjI m(1) d a3 first second)
qed

end
